theory Spec2Isabelle
  imports Main "HOL-Library.Sublist"
begin

section \<open>The task board of \<open>dashboard/task/[TaskId]/page.tsx\<close>\<close>

text \<open>
  The page keeps the sub-tasks of one parent task in a React state cell \<open>tasks\<close>,
  groups them into four lanes (\<open>tasksByStatus\<close>) and changes the status of one of them
  when a card is dropped on a lane (\<open>moveTask\<close>). State cells are modelled by explicit
  state passing, JavaScript exceptions by the left summand of a sum type.
\<close>

subsection \<open>Data model\<close>

text \<open>
  Modelled from the spec: the declarations of \<open>Task\<close> and \<open>TaskMain\<close> (imported from
  \<open>@/types\<close>) are not part of the page. The fields are those of section 3 of the
  specification, which are also the ones the page reads: \<open>task.id\<close>, \<open>task.title\<close>,
  \<open>task.description\<close>, \<open>task.deadline\<close>, \<open>task.status\<close>, \<open>task.assignees\<close> (each with
  \<open>id\<close> and \<open>name\<close>) and the optional \<open>task.subTasks\<close> (each with a \<open>title\<close>).
  The status is a plain string: \<open>moveTask\<close> stores its \<open>newStatus: string\<close> in it and
  the cards read it through the cast \<open>task.status as TaskStatus\<close>. The field \<open>id\<close> is
  named \<open>task_id\<close> here, HOL's \<open>id\<close> being the identity function.
\<close>

record assignee =
  assignee_id :: string
  name :: string

record subTask =
  subTask_title :: string

record task =
  task_id :: string
  title :: string
  description :: string
  deadline :: int
  status :: string
  assignees :: "assignee list"
  subTasks :: "subTask list option"

text \<open>
  Modelled from the spec: \<open>TaskMain\<close>, the parent task that \<open>getTaskById\<close> resolves to.
  The page reads \<open>title\<close>, \<open>description\<close> and \<open>status\<close> of it, and \<open>data.subTasks\<close> to fill
  the board; an absent \<open>subTasks\<close> property (\<open>undefined\<close>) is \<open>None\<close>.
\<close>

record taskMain =
  id_main :: string
  title_main :: string
  description_main :: string
  status_main :: string
  subTasks_main :: "task list option"

text \<open>\<open>type TaskStatus = "TODO" | "IN_PROGRESS" | "COMPLETED" | "BACKLOG"\<close>\<close>

datatype TaskStatus = TODO | IN_PROGRESS | COMPLETED | BACKLOG

fun status_string :: "TaskStatus \<Rightarrow> string" where
  "status_string TODO = ''TODO''"
| "status_string IN_PROGRESS = ''IN_PROGRESS''"
| "status_string COMPLETED = ''COMPLETED''"
| "status_string BACKLOG = ''BACKLOG''"

definition taxonomy :: "string list" where
  "taxonomy = map status_string [TODO, IN_PROGRESS, COMPLETED, BACKLOG]"

subsection \<open>\<open>tasksByStatus\<close>: the four lanes\<close>

record lanes =
  todo :: "task list"
  inProgress :: "task list"
  completed :: "task list"
  backlog :: "task list"

text \<open>
  The callback of \<open>useMemo\<close>, on the array held by \<open>tasks\<close>:
  four calls of \<open>Array.prototype.filter\<close>, each with a strict string comparison.
\<close>

definition tasksByStatus :: "task list \<Rightarrow> lanes" where
  "tasksByStatus tasks =
     \<lparr> todo = filter (\<lambda>task. status task = ''TODO'') tasks,
       inProgress = filter (\<lambda>task. status task = ''IN_PROGRESS'') tasks,
       completed = filter (\<lambda>task. status task = ''COMPLETED'') tasks,
       backlog = filter (\<lambda>task. status task = ''BACKLOG'') tasks \<rparr>"

text \<open>
  The lane shown for a status, as the four \<open>TaskColumn\<close> elements of \<open>DashboardContent\<close>
  pair them: \<open>status="TODO"\<close> with \<open>tasksByStatus.todo\<close>, \<open>status="IN_PROGRESS"\<close> with
  \<open>tasksByStatus.inProgress\<close>, and so on.
\<close>

fun lane :: "TaskStatus \<Rightarrow> lanes \<Rightarrow> task list" where
  "lane TODO l = todo l"
| "lane IN_PROGRESS l = inProgress l"
| "lane COMPLETED l = completed l"
| "lane BACKLOG l = backlog l"

subsection \<open>\<open>moveTask\<close>: reassignment\<close>

text \<open>
  The updater that \<open>moveTask\<close> hands to \<open>setTasks\<close>, applied to the previous array:
  \<open>prevTasks.map((t) => t.id === task.id ? { ...t, status: newStatus } : t)\<close>.
  The dragged \<open>task\<close> is used for its \<open>id\<close> only. A card can be dropped only on a
  rendered board, that is when \<open>tasks\<close> holds an array.
\<close>

definition moveTask :: "task \<Rightarrow> string \<Rightarrow> task list \<Rightarrow> task list" where
  "moveTask task newStatus prevTasks =
     map (\<lambda>t. if task_id t = task_id task then t\<lparr>status := newStatus\<rparr> else t) prevTasks"

subsection \<open>The state of \<open>DashboardContent\<close> and its effects\<close>

text \<open>
  The three state cells of \<open>DashboardContent\<close>. \<open>tasks\<close> is declared \<open>Task[]\<close>, but
  \<open>setTasks(data.subTasks as any)\<close> stores whatever the fetched object holds, so the cell
  is an optional array: \<open>None\<close> is \<open>undefined\<close>.
\<close>

record dashboard =
  tasks :: "task list option"
  loading :: bool
  error :: "string option"

definition dashboard_init :: dashboard where
  "dashboard_init = \<lparr> tasks = Some [], loading = True, error = None \<rparr>"

text \<open>
  What \<open>await getTaskById(id)\<close> does: the promise is rejected, or it resolves to \<open>null\<close>
  (\<open>Resolved None\<close>) or to a parent task. The collaborator itself is a parameter of the
  model.
\<close>

datatype fetched = Rejected | Resolved "taskMain option"

datatype js_error = TypeError

text \<open>
  \<open>fetchTasks\<close>, run once on mount. Reading \<open>data.subTasks\<close> of \<open>null\<close> throws inside the
  \<open>try\<close> block and is caught like a rejection; \<open>finally\<close> clears \<open>loading\<close> on every path.
\<close>

definition fetchTasks :: "(string \<Rightarrow> fetched) \<Rightarrow> dashboard \<Rightarrow> dashboard" where
  "fetchTasks getTaskById s =
     (let s' = (case getTaskById ''cm59m7yt30000iujtnlr77mne'' of
                  Rejected \<Rightarrow> s\<lparr>error := Some ''An error occurred while fetching tasks.''\<rparr>
                | Resolved None \<Rightarrow> s\<lparr>error := Some ''An error occurred while fetching tasks.''\<rparr>
                | Resolved (Some data) \<Rightarrow> s\<lparr>tasks := subTasks_main data\<rparr>)
      in s'\<lparr>loading := False\<rparr>)"

text \<open>
  One render of \<open>DashboardContent\<close>. The \<open>useMemo\<close> callback runs before the two early
  returns; \<open>tasks.filter\<close> on \<open>undefined\<close> throws a \<open>TypeError\<close>. \<open>if (error)\<close> tests
  truthiness: \<open>null\<close> and the empty string are falsy.
\<close>

datatype view = LoadingView | ErrorView string | BoardView lanes

definition memo :: "dashboard \<Rightarrow> js_error + lanes" where
  "memo s = (case tasks s of None \<Rightarrow> Inl TypeError | Some ts \<Rightarrow> Inr (tasksByStatus ts))"

definition DashboardContent :: "dashboard \<Rightarrow> js_error + view" where
  "DashboardContent s =
     (case memo s of
        Inl e \<Rightarrow> Inl e
      | Inr l \<Rightarrow>
          if loading s then Inr LoadingView
          else (case error s of
                  None \<Rightarrow> Inr (BoardView l)
                | Some msg \<Rightarrow> if msg = [] then Inr (BoardView l) else Inr (ErrorView msg)))"

subsection \<open>The \<open>useMemo\<close> cache\<close>

text \<open>
  \<open>useMemo(callback, [tasks])\<close> keeps the value and the dependency of the last
  computation and runs the callback again only when \<open>Object.is\<close> tells the current
  \<open>tasks\<close> from the kept one. For arrays this compares references, not contents, so the
  component instance is modelled with an explicit store of arrays: \<open>tasks_cell\<close> holds
  \<open>undefined\<close> or the address of an array, and every array the code builds
  (\<open>useState<Task[]>([])\<close>, the array of the fetched object, the result of
  \<open>prevTasks.map\<close>) gets a fresh address. No array is ever updated in place.
\<close>

datatype cell = Undefined | Ref nat

record component =
  heap :: "nat \<Rightarrow> task list option"
  next_ref :: nat
  tasks_cell :: cell
  loading_cell :: bool
  error_cell :: "string option"
  memo_cell :: "(cell \<times> lanes) option"

definition component_init :: component where
  "component_init =
     \<lparr> heap = Map.empty(0 \<mapsto> []), next_ref = 1, tasks_cell = Ref 0, loading_cell = True,
       error_cell = None, memo_cell = None \<rparr>"

text \<open>\<open>setTasks\<close> with a newly built array.\<close>

definition setTasks_new :: "task list \<Rightarrow> component \<Rightarrow> component" where
  "setTasks_new ts s =
     s\<lparr>heap := (heap s)(next_ref s \<mapsto> ts), tasks_cell := Ref (next_ref s),
       next_ref := Suc (next_ref s)\<rparr>"

text \<open>The array that \<open>tasks\<close> denotes, if any.\<close>

definition current :: "component \<Rightarrow> task list option" where
  "current s = (case tasks_cell s of Undefined \<Rightarrow> None | Ref a \<Rightarrow> heap s a)"

text \<open>The state cells without the cache and the addresses.\<close>

definition dashboard_of :: "component \<Rightarrow> dashboard" where
  "dashboard_of s = \<lparr> tasks = current s, loading = loading_cell s, error = error_cell s \<rparr>"

text \<open>
  One call of \<open>useMemo\<close>: the kept value on a hit; otherwise the callback runs, and its
  value is kept with the dependency unless it throws.
\<close>

definition recompute :: "component \<Rightarrow> (js_error + lanes) \<times> component" where
  "recompute s =
     (case current s of
        None \<Rightarrow> (Inl TypeError, s)
      | Some ts \<Rightarrow>
          (Inr (tasksByStatus ts), s\<lparr>memo_cell := Some (tasks_cell s, tasksByStatus ts)\<rparr>))"

definition useMemo :: "component \<Rightarrow> (js_error + lanes) \<times> component" where
  "useMemo s =
     (case memo_cell s of
        None \<Rightarrow> recompute s
      | Some (deps, val) \<Rightarrow> if deps = tasks_cell s then (Inr val, s) else recompute s)"

text \<open>
  What happens to a mounted component: the fetch settles with some outcome (\<open>fetchTasks\<close>), a
  card is dropped on a lane (\<open>moveTask\<close>, whose \<open>prevTasks.map\<close> throws on \<open>undefined\<close>
  and then leaves the state as it is), or the component renders.
\<close>

datatype event = Fetched fetched | Dropped task string | Rendered

fun step :: "event \<Rightarrow> component \<Rightarrow> component" where
  "step (Fetched r) s =
     (let s' = (case r of
                  Rejected \<Rightarrow> s\<lparr>error_cell := Some ''An error occurred while fetching tasks.''\<rparr>
                | Resolved None \<Rightarrow>
                    s\<lparr>error_cell := Some ''An error occurred while fetching tasks.''\<rparr>
                | Resolved (Some data) \<Rightarrow>
                    (case subTasks_main data of
                       None \<Rightarrow> s\<lparr>tasks_cell := Undefined\<rparr>
                     | Some ts \<Rightarrow> setTasks_new ts s))
      in s'\<lparr>loading_cell := False\<rparr>)"
| "step (Dropped task newStatus) s =
     (case current s of
        None \<Rightarrow> s
      | Some prevTasks \<Rightarrow> setTasks_new (moveTask task newStatus prevTasks) s)"
| "step Rendered s = snd (useMemo s)"

definition run :: "event list \<Rightarrow> component" where
  "run es = fold step es component_init"

text \<open>The lanes that a render of the component computes.\<close>

definition rendered_lanes :: "component \<Rightarrow> js_error + lanes" where
  "rendered_lanes s = fst (useMemo s)"

text \<open>
  The cache is sound when it was computed from an allocated array whose lanes it holds;
  the address in \<open>tasks_cell\<close> is allocated too.
\<close>

definition cache_ok :: "component \<Rightarrow> bool" where
  "cache_ok s \<longleftrightarrow>
     (\<forall>a. tasks_cell s = Ref a \<longrightarrow> a < next_ref s) \<and>
     (\<forall>d v. memo_cell s = Some (d, v) \<longrightarrow>
        (\<exists>a ts. d = Ref a \<and> a < next_ref s \<and> heap s a = Some ts \<and> v = tasksByStatus ts))"

subsection \<open>The state of \<open>Page\<close>\<close>

text \<open>
  \<open>Page\<close> holds the parent task and an error message of its own. It renders the nested
  \<open>DashboardContent\<close>, to which it passes no property, only while its error message is
  falsy: \<open>if (error) return <div>...</div>\<close> comes before the board, so a rejected fetch
  of the routed \<open>TaskId\<close> unmounts the board and discards its state cells
  (\<open>content = None\<close>).
\<close>

record page =
  parent :: "taskMain option"
  page_error :: "string option"
  content :: "dashboard option"

definition page_init :: page where
  "page_init = \<lparr> parent = None, page_error = None, content = Some dashboard_init \<rparr>"

definition fetchTaskDetails :: "string \<Rightarrow> (string \<Rightarrow> fetched) \<Rightarrow> page \<Rightarrow> page" where
  "fetchTaskDetails TaskId getTaskById p =
     (case getTaskById TaskId of
        Rejected \<Rightarrow> p\<lparr>page_error := Some ''Failed to fetch task details.''\<rparr>
      | Resolved data \<Rightarrow> p\<lparr>parent := data\<rparr>)"

text \<open>
  The page once both fetches of a mount have settled: with a truthy error message there
  is no board; otherwise the board is the one \<open>fetchTasks\<close> has filled.
\<close>

definition Page_mount :: "string \<Rightarrow> (string \<Rightarrow> fetched) \<Rightarrow> page" where
  "Page_mount TaskId getTaskById =
     (let p = fetchTaskDetails TaskId getTaskById page_init
      in (case page_error p of
            None \<Rightarrow> p\<lparr>content := map_option (fetchTasks getTaskById) (content p)\<rparr>
          | Some msg \<Rightarrow>
              if msg = [] then p\<lparr>content := map_option (fetchTasks getTaskById) (content p)\<rparr>
              else p\<lparr>content := None\<rparr>))"

subsection \<open>Sample data\<close>

text \<open>
  A task with the given identifier and status, for the concrete instances below; the
  other fields are fixed.
\<close>

abbreviation (input) sample_task :: "string \<Rightarrow> string \<Rightarrow> task" where
  "sample_task i st \<equiv>
     \<lparr>task_id = i, title = i, description = [], deadline = 0, status = st,
      assignees = [], subTasks = None\<rparr>"

section \<open>Properties\<close>

subsection \<open>Auxiliary facts\<close>

lemma set_taxonomy: "set taxonomy = {''TODO'', ''IN_PROGRESS'', ''COMPLETED'', ''BACKLOG''}"
  by (simp add: taxonomy_def)

lemma lane_tasksByStatus:
  "lane S (tasksByStatus T) = filter (\<lambda>t. status t = status_string S) T"
  by (cases S) (simp_all add: tasksByStatus_def)

lemma moveTask_nth:
  "i < length store \<Longrightarrow>
   moveTask task newStatus store ! i =
     (if task_id (store ! i) = task_id task then (store ! i)\<lparr>status := newStatus\<rparr>
      else store ! i)"
  by (simp add: moveTask_def)

lemma length_moveTask: "length (moveTask task newStatus store) = length store"
  by (simp add: moveTask_def)

text \<open>The two scenarios of section 8 of the specification.\<close>

lemma scenario_partition:
  "tasksByStatus
     [sample_task ''a'' ''TODO'', sample_task ''b'' ''BACKLOG'', sample_task ''c'' ''TODO'']
   = \<lparr>todo = [sample_task ''a'' ''TODO'', sample_task ''c'' ''TODO''], inProgress = [],
      completed = [], backlog = [sample_task ''b'' ''BACKLOG'']\<rparr>"
  by (simp add: tasksByStatus_def)

lemma scenario_reassign:
  "tasksByStatus (moveTask (sample_task ''b'' ''BACKLOG'') ''COMPLETED''
     [sample_task ''a'' ''TODO'', sample_task ''b'' ''BACKLOG'', sample_task ''c'' ''TODO''])
   = \<lparr>todo = [sample_task ''a'' ''TODO'', sample_task ''c'' ''TODO''], inProgress = [],
      completed = [sample_task ''b'' ''COMPLETED''], backlog = []\<rparr>"
  by (simp add: tasksByStatus_def moveTask_def)

subsection \<open>The partition\<close>

text \<open>
  C1, as stated, fails: the claim lets the union of the four lanes be the whole task
  list, for every task list. A list holding one task whose status is \<open>DONE\<close> has four
  empty lanes, so their union is not the list.
\<close>

theorem tasksByStatus_union_counterexample:
  "set (todo (tasksByStatus [sample_task ''a'' ''DONE'']))
   \<union> set (inProgress (tasksByStatus [sample_task ''a'' ''DONE'']))
   \<union> set (completed (tasksByStatus [sample_task ''a'' ''DONE'']))
   \<union> set (backlog (tasksByStatus [sample_task ''a'' ''DONE'']))
   \<noteq> set [sample_task ''a'' ''DONE'']"
  by (simp add: tasksByStatus_def)

text \<open>
  C1, amended: for every task list \<open>T\<close> and every status \<open>S\<close> of the taxonomy, the lane of
  \<open>S\<close> is \<open>T\<close> filtered by "status equals \<open>S\<close>": exactly the tasks of \<open>T\<close> with that
  status, in the relative order they have in \<open>T\<close> (a subsequence of \<open>T\<close>). The four lanes
  are pairwise disjoint, and their union is the set of the tasks of \<open>T\<close> whose status is
  one of the four values of the taxonomy.
\<close>

theorem tasksByStatus_partition:
  "lane S (tasksByStatus T) = filter (\<lambda>t. status t = status_string S) T
   \<and> subseq (lane S (tasksByStatus T)) T
   \<and> set (lane S (tasksByStatus T)) = {t \<in> set T. status t = status_string S}
   \<and> set (todo (tasksByStatus T)) \<inter> set (inProgress (tasksByStatus T)) = {}
   \<and> set (todo (tasksByStatus T)) \<inter> set (completed (tasksByStatus T)) = {}
   \<and> set (todo (tasksByStatus T)) \<inter> set (backlog (tasksByStatus T)) = {}
   \<and> set (inProgress (tasksByStatus T)) \<inter> set (completed (tasksByStatus T)) = {}
   \<and> set (inProgress (tasksByStatus T)) \<inter> set (backlog (tasksByStatus T)) = {}
   \<and> set (completed (tasksByStatus T)) \<inter> set (backlog (tasksByStatus T)) = {}
   \<and> set (todo (tasksByStatus T)) \<union> set (inProgress (tasksByStatus T))
       \<union> set (completed (tasksByStatus T)) \<union> set (backlog (tasksByStatus T))
       = {t \<in> set T. status t \<in> set taxonomy}"
proof -
  have eq: "lane S (tasksByStatus T) = filter (\<lambda>t. status t = status_string S) T"
    by (rule lane_tasksByStatus)
  have sub: "subseq (lane S (tasksByStatus T)) T"
    unfolding eq by simp
  have mem: "set (lane S (tasksByStatus T)) = {t \<in> set T. status t = status_string S}"
    unfolding eq by auto
  have disj:
    "set (todo (tasksByStatus T)) \<inter> set (inProgress (tasksByStatus T)) = {}"
    "set (todo (tasksByStatus T)) \<inter> set (completed (tasksByStatus T)) = {}"
    "set (todo (tasksByStatus T)) \<inter> set (backlog (tasksByStatus T)) = {}"
    "set (inProgress (tasksByStatus T)) \<inter> set (completed (tasksByStatus T)) = {}"
    "set (inProgress (tasksByStatus T)) \<inter> set (backlog (tasksByStatus T)) = {}"
    "set (completed (tasksByStatus T)) \<inter> set (backlog (tasksByStatus T)) = {}"
    by (auto simp: tasksByStatus_def)
  have un: "set (todo (tasksByStatus T)) \<union> set (inProgress (tasksByStatus T))
       \<union> set (completed (tasksByStatus T)) \<union> set (backlog (tasksByStatus T))
       = {t \<in> set T. status t \<in> set taxonomy}"
    by (auto simp: tasksByStatus_def set_taxonomy)
  from eq sub mem disj un show ?thesis by blast
qed

text \<open>
  C10: a task of \<open>T\<close> whose status is none of \<open>TODO\<close>, \<open>IN_PROGRESS\<close>, \<open>COMPLETED\<close>,
  \<open>BACKLOG\<close> is in none of the four lanes, and computing the lanes of \<open>T\<close> raises
  nothing: the task is dropped from the board.
\<close>

theorem tasksByStatus_drops_unrecognized:
  "t \<in> set T \<Longrightarrow> status t \<notin> set taxonomy \<Longrightarrow>
   t \<notin> set (todo (tasksByStatus T)) \<and> t \<notin> set (inProgress (tasksByStatus T))
   \<and> t \<notin> set (completed (tasksByStatus T)) \<and> t \<notin> set (backlog (tasksByStatus T))
   \<and> memo (s\<lparr>tasks := Some T\<rparr>) = Inr (tasksByStatus T)"
  by (simp add: tasksByStatus_def set_taxonomy memo_def)

text \<open>
  C10 at a concrete board: task \<open>b\<close> with status \<open>DONE\<close> is in the list and in no lane.
\<close>

theorem tasksByStatus_drops_unrecognized_witness:
  "sample_task ''b'' ''DONE'' \<in> set [sample_task ''a'' ''TODO'', sample_task ''b'' ''DONE'']
   \<and> status (sample_task ''b'' ''DONE'') \<notin> set taxonomy
   \<and> sample_task ''b'' ''DONE''
       \<notin> set (todo (tasksByStatus [sample_task ''a'' ''TODO'', sample_task ''b'' ''DONE'']))
   \<and> sample_task ''b'' ''DONE''
       \<notin> set (inProgress
            (tasksByStatus [sample_task ''a'' ''TODO'', sample_task ''b'' ''DONE'']))
   \<and> sample_task ''b'' ''DONE''
       \<notin> set (completed
            (tasksByStatus [sample_task ''a'' ''TODO'', sample_task ''b'' ''DONE'']))
   \<and> sample_task ''b'' ''DONE''
       \<notin> set (backlog (tasksByStatus [sample_task ''a'' ''TODO'', sample_task ''b'' ''DONE'']))
   \<and> tasksByStatus [sample_task ''a'' ''TODO'', sample_task ''b'' ''DONE'']
       = \<lparr>todo = [sample_task ''a'' ''TODO''], inProgress = [], completed = [],
          backlog = []\<rparr>"
  using tasksByStatus_drops_unrecognized [of "sample_task ''b'' ''DONE''"
      "[sample_task ''a'' ''TODO'', sample_task ''b'' ''DONE'']" dashboard_init]
  by (simp add: taxonomy_def tasksByStatus_def)

subsection \<open>The cache does not show\<close>

lemma cache_ok_init: "cache_ok component_init"
  by (simp add: cache_ok_def component_init_def)

lemma cache_ok_setTasks_new:
  assumes "cache_ok s"
  shows "cache_ok (setTasks_new ts s)"
proof -
  have "\<exists>a ts'. d = Ref a \<and> a < Suc (next_ref s)
          \<and> ((heap s)(next_ref s \<mapsto> ts)) a = Some ts' \<and> v = tasksByStatus ts'"
    if "memo_cell s = Some (d, v)" for d v
  proof -
    from assms that obtain a ts' where
      "d = Ref a" "a < next_ref s" "heap s a = Some ts'" "v = tasksByStatus ts'"
      unfolding cache_ok_def by blast
    then show ?thesis by auto
  qed
  then show ?thesis
    by (simp add: cache_ok_def setTasks_new_def)
qed

lemma cache_ok_recompute:
  assumes "cache_ok s"
  shows "cache_ok (snd (recompute s))"
proof (cases "current s")
  case None
  with assms show ?thesis by (simp add: recompute_def)
next
  case (Some ts)
  then obtain a where a: "tasks_cell s = Ref a" "heap s a = Some ts"
    by (auto simp: current_def split: cell.splits)
  with assms have "a < next_ref s" by (simp add: cache_ok_def)
  with a Some assms show ?thesis
    by (simp add: recompute_def cache_ok_def)
qed

lemma cache_ok_useMemo: "cache_ok s \<Longrightarrow> cache_ok (snd (useMemo s))"
  by (auto simp: useMemo_def cache_ok_recompute split: option.splits)

lemma cache_ok_step: "cache_ok s \<Longrightarrow> cache_ok (step e s)"
proof (cases e)
  case (Fetched r)
  assume ok: "cache_ok s"
  have cells: "cache_ok (t\<lparr>loading_cell := b\<rparr>) = cache_ok t"
    "cache_ok (t\<lparr>error_cell := m\<rparr>) = cache_ok t" for t b m
    by (simp_all add: cache_ok_def)
  have undef: "cache_ok (s\<lparr>tasks_cell := Undefined\<rparr>)"
    using ok by (simp add: cache_ok_def)
  show ?thesis
    using ok undef cache_ok_setTasks_new [OF ok]
    by (simp add: Fetched cells Let_def split: fetched.splits option.splits)
next
  case (Dropped task newStatus)
  assume "cache_ok s"
  then show ?thesis
    by (simp add: Dropped cache_ok_setTasks_new split: option.splits)
next
  case Rendered
  assume "cache_ok s"
  then show ?thesis by (simp add: Rendered cache_ok_useMemo)
qed

lemma cache_ok_fold: "cache_ok s \<Longrightarrow> cache_ok (fold step es s)"
  by (induction es arbitrary: s) (simp_all add: cache_ok_step)

lemma cache_ok_run: "cache_ok (run es)"
  by (simp add: run_def cache_ok_fold cache_ok_init)

lemma useMemo_value:
  assumes "cache_ok s"
  shows "fst (useMemo s)
    = (case current s of None \<Rightarrow> Inl TypeError | Some ts \<Rightarrow> Inr (tasksByStatus ts))"
proof (cases "memo_cell s")
  case None
  then show ?thesis
    by (simp add: useMemo_def recompute_def split: option.splits)
next
  case (Some c)
  obtain d v where c: "c = (d, v)" by (cases c)
  show ?thesis
  proof (cases "d = tasks_cell s")
    case True
    from assms Some c obtain a ts where
      "d = Ref a" "heap s a = Some ts" "v = tasksByStatus ts"
      unfolding cache_ok_def by blast
    moreover from this True have "tasks_cell s = Ref a" by simp
    ultimately show ?thesis
      using True Some c by (simp add: useMemo_def current_def)
  next
    case False
    with Some c show ?thesis
      by (simp add: useMemo_def recompute_def split: option.splits)
  qed
qed

text \<open>
  The component with its cache and addresses does what the state cells alone do: a
  settled fetch is \<open>fetchTasks\<close>, a drop is \<open>moveTask\<close> on the array of \<open>tasks\<close>.
\<close>

lemma dashboard_of_Fetched:
  "dashboard_of (step (Fetched (getTaskById ''cm59m7yt30000iujtnlr77mne'')) s)
   = fetchTasks getTaskById (dashboard_of s)"
  by (simp add: dashboard_of_def fetchTasks_def current_def setTasks_new_def Let_def
      split: fetched.splits option.splits cell.splits)

lemma current_Dropped:
  "current (step (Dropped task newStatus) s) = map_option (moveTask task newStatus) (current s)"
  by (simp add: current_def setTasks_new_def split: option.splits cell.splits)

text \<open>
  C7: whatever has happened to the component before (fetches, drops, earlier renders,
  and so whatever the \<open>useMemo\<close> cache and the array addresses are), a render computes
  the lanes of the task sequence that \<open>tasks\<close> holds then, by \<open>tasksByStatus\<close> (and fails
  when \<open>tasks\<close> is \<open>undefined\<close>). So two runs that end with equal task sequences render
  identical lanes: the cache, the only state kept between computations, does not show.
\<close>

theorem rendered_lanes_deterministic:
  "rendered_lanes (run es)
     = (case current (run es) of None \<Rightarrow> Inl TypeError | Some ts \<Rightarrow> Inr (tasksByStatus ts))
   \<and> (current (run es) = current (run es')
        \<longrightarrow> rendered_lanes (run es) = rendered_lanes (run es'))"
proof -
  have val: "rendered_lanes (run xs)
     = (case current (run xs) of None \<Rightarrow> Inl TypeError | Some ts \<Rightarrow> Inr (tasksByStatus ts))"
    for xs
    unfolding rendered_lanes_def by (rule useMemo_value) (rule cache_ok_run)
  show ?thesis
    by (simp add: val)
qed

text \<open>
  C7 on two runs. In the first, the store \<open>a\<close>, \<open>b\<close> is fetched and rendered, then \<open>b\<close>
  is dropped on \<open>COMPLETED\<close>: the cache holds the lanes of the array before the drop.
  In the second, the store is fetched with \<open>b\<close> already completed and never rendered:
  the cache is empty. The task sequences are equal, and so are the rendered lanes.
\<close>

theorem rendered_lanes_deterministic_witness:
  "current (run [Fetched (Resolved (Some \<lparr>id_main = ''p'', title_main = ''P'',
        description_main = [], status_main = ''TODO'',
        subTasks_main = Some [sample_task ''a'' ''TODO'', sample_task ''b'' ''BACKLOG'']\<rparr>)),
      Rendered, Dropped (sample_task ''b'' ''BACKLOG'') ''COMPLETED''])
   = current (run [Fetched (Resolved (Some \<lparr>id_main = ''p'', title_main = ''P'',
        description_main = [], status_main = ''TODO'',
        subTasks_main = Some [sample_task ''a'' ''TODO'', sample_task ''b'' ''COMPLETED'']\<rparr>))])
   \<and> memo_cell (run [Fetched (Resolved (Some \<lparr>id_main = ''p'', title_main = ''P'',
        description_main = [], status_main = ''TODO'',
        subTasks_main = Some [sample_task ''a'' ''TODO'', sample_task ''b'' ''BACKLOG'']\<rparr>)),
      Rendered, Dropped (sample_task ''b'' ''BACKLOG'') ''COMPLETED''])
     = Some (Ref 1, \<lparr>todo = [sample_task ''a'' ''TODO''], inProgress = [], completed = [],
         backlog = [sample_task ''b'' ''BACKLOG'']\<rparr>)
   \<and> memo_cell (run [Fetched (Resolved (Some \<lparr>id_main = ''p'', title_main = ''P'',
        description_main = [], status_main = ''TODO'',
        subTasks_main = Some [sample_task ''a'' ''TODO'', sample_task ''b'' ''COMPLETED'']\<rparr>))])
     = None
   \<and> rendered_lanes (run [Fetched (Resolved (Some \<lparr>id_main = ''p'', title_main = ''P'',
        description_main = [], status_main = ''TODO'',
        subTasks_main = Some [sample_task ''a'' ''TODO'', sample_task ''b'' ''BACKLOG'']\<rparr>)),
      Rendered, Dropped (sample_task ''b'' ''BACKLOG'') ''COMPLETED''])
     = rendered_lanes (run [Fetched (Resolved (Some \<lparr>id_main = ''p'', title_main = ''P'',
        description_main = [], status_main = ''TODO'',
        subTasks_main = Some [sample_task ''a'' ''TODO'', sample_task ''b'' ''COMPLETED'']\<rparr>))])
   \<and> rendered_lanes (run [Fetched (Resolved (Some \<lparr>id_main = ''p'', title_main = ''P'',
        description_main = [], status_main = ''TODO'',
        subTasks_main = Some [sample_task ''a'' ''TODO'', sample_task ''b'' ''BACKLOG'']\<rparr>)),
      Rendered, Dropped (sample_task ''b'' ''BACKLOG'') ''COMPLETED''])
     = Inr \<lparr>todo = [sample_task ''a'' ''TODO''], inProgress = [],
         completed = [sample_task ''b'' ''COMPLETED''], backlog = []\<rparr>"
  using rendered_lanes_deterministic [of
      "[Fetched (Resolved (Some \<lparr>id_main = ''p'', title_main = ''P'',
        description_main = [], status_main = ''TODO'',
        subTasks_main = Some [sample_task ''a'' ''TODO'', sample_task ''b'' ''BACKLOG'']\<rparr>)),
      Rendered, Dropped (sample_task ''b'' ''BACKLOG'') ''COMPLETED'']"
      "[Fetched (Resolved (Some \<lparr>id_main = ''p'', title_main = ''P'',
        description_main = [], status_main = ''TODO'',
        subTasks_main = Some [sample_task ''a'' ''TODO'', sample_task ''b'' ''COMPLETED'']\<rparr>))]"]
  by (simp add: run_def component_init_def setTasks_new_def current_def useMemo_def
      recompute_def rendered_lanes_def moveTask_def tasksByStatus_def)

subsection \<open>Reassignment\<close>

text \<open>
  C2: in a store with unique identifiers, reassigning the task at position \<open>i\<close> (the one
  whose identifier is that of the dragged task) gives the store with position \<open>i\<close>
  replaced by the same task with status \<open>newStatus\<close>: the status is \<open>newStatus\<close>, the
  fields \<open>id\<close>, \<open>title\<close>, \<open>description\<close>, \<open>deadline\<close>, \<open>assignees\<close> and \<open>subTasks\<close> are those
  it had, and the task at every other position is unchanged.
\<close>

theorem moveTask_frame:
  assumes "distinct (map task_id store)"
    and "i < length store"
    and "task_id (store ! i) = task_id task"
  shows "moveTask task newStatus store = store[i := (store ! i)\<lparr>status := newStatus\<rparr>]
    \<and> status (moveTask task newStatus store ! i) = newStatus
    \<and> task_id (moveTask task newStatus store ! i) = task_id (store ! i)
    \<and> title (moveTask task newStatus store ! i) = title (store ! i)
    \<and> description (moveTask task newStatus store ! i) = description (store ! i)
    \<and> deadline (moveTask task newStatus store ! i) = deadline (store ! i)
    \<and> assignees (moveTask task newStatus store ! i) = assignees (store ! i)
    \<and> subTasks (moveTask task newStatus store ! i) = subTasks (store ! i)
    \<and> (\<forall>j < length store. j \<noteq> i \<longrightarrow> moveTask task newStatus store ! j = store ! j)"
proof -
  have other: "task_id (store ! j) \<noteq> task_id task" if "j < length store" "j \<noteq> i" for j
  proof
    assume "task_id (store ! j) = task_id task"
    with assms(3) have "map task_id store ! j = map task_id store ! i"
      using that(1) assms(2) by simp
    moreover have "j < length (map task_id store)" "i < length (map task_id store)"
      using that(1) assms(2) by simp_all
    ultimately have "j = i"
      using assms(1) nth_eq_iff_index_eq by blast
    with that(2) show False by simp
  qed
  have frame: "\<forall>j < length store. j \<noteq> i \<longrightarrow> moveTask task newStatus store ! j = store ! j"
    using other by (simp add: moveTask_nth)
  have target: "moveTask task newStatus store ! i = (store ! i)\<lparr>status := newStatus\<rparr>"
    using assms(2,3) by (simp add: moveTask_nth)
  have whole: "moveTask task newStatus store = store[i := (store ! i)\<lparr>status := newStatus\<rparr>]"
  proof (rule nth_equalityI)
    show "length (moveTask task newStatus store)
      = length (store[i := (store ! i)\<lparr>status := newStatus\<rparr>])"
      by (simp add: length_moveTask)
  next
    fix j assume "j < length (moveTask task newStatus store)"
    then have j: "j < length store" by (simp add: length_moveTask)
    show "moveTask task newStatus store ! j
      = store[i := (store ! i)\<lparr>status := newStatus\<rparr>] ! j"
    proof (cases "j = i")
      case True with target assms(2) show ?thesis by simp
    next
      case False with frame j show ?thesis by simp
    qed
  qed
  from whole target frame show ?thesis by simp
qed

text \<open>
  C2 on the store \<open>a\<close>, \<open>b\<close>, \<open>c\<close> of the specification's scenario: dropping \<open>b\<close> on
  \<open>COMPLETED\<close> changes the status of \<open>b\<close> and nothing else.
\<close>

theorem moveTask_frame_witness:
  "distinct (map task_id
      [sample_task ''a'' ''TODO'', sample_task ''b'' ''BACKLOG'', sample_task ''c'' ''TODO''])
   \<and> Suc 0 < length
      [sample_task ''a'' ''TODO'', sample_task ''b'' ''BACKLOG'', sample_task ''c'' ''TODO'']
   \<and> task_id ([sample_task ''a'' ''TODO'', sample_task ''b'' ''BACKLOG'',
        sample_task ''c'' ''TODO''] ! Suc 0) = task_id (sample_task ''b'' ''BACKLOG'')
   \<and> moveTask (sample_task ''b'' ''BACKLOG'') ''COMPLETED''
        [sample_task ''a'' ''TODO'', sample_task ''b'' ''BACKLOG'', sample_task ''c'' ''TODO'']
      = [sample_task ''a'' ''TODO'', sample_task ''b'' ''COMPLETED'', sample_task ''c'' ''TODO'']"
  using moveTask_frame [of
      "[sample_task ''a'' ''TODO'', sample_task ''b'' ''BACKLOG'', sample_task ''c'' ''TODO'']"
      "Suc 0" "sample_task ''b'' ''BACKLOG''" "''COMPLETED''"]
  by simp

text \<open>
  C3: when no task of the store has the identifier of the dragged task, reassignment
  returns the store as it was; nothing is raised.
\<close>

theorem moveTask_absent_noop:
  "task_id task \<notin> task_id ` set store \<Longrightarrow> moveTask task newStatus store = store"
  unfolding moveTask_def by (induction store) auto

text \<open>C3 for a dragged task \<open>z\<close> on a store holding \<open>a\<close> and \<open>b\<close>.\<close>

theorem moveTask_absent_noop_witness:
  "task_id (sample_task ''z'' ''TODO'')
     \<notin> task_id ` set [sample_task ''a'' ''TODO'', sample_task ''b'' ''BACKLOG'']
   \<and> moveTask (sample_task ''z'' ''TODO'') ''COMPLETED''
        [sample_task ''a'' ''TODO'', sample_task ''b'' ''BACKLOG'']
      = [sample_task ''a'' ''TODO'', sample_task ''b'' ''BACKLOG'']"
  using moveTask_absent_noop [of "sample_task ''z'' ''TODO''"
      "[sample_task ''a'' ''TODO'', sample_task ''b'' ''BACKLOG'']" "''COMPLETED''"]
  by simp

text \<open>
  C4: reassigning twice with the same task identifier and the same status gives the
  store that reassigning once gives.
\<close>

theorem moveTask_idempotent:
  "moveTask task newStatus (moveTask task newStatus store) = moveTask task newStatus store"
  by (simp add: moveTask_def)

text \<open>
  C6: reassignment neither inserts nor deletes: the result has the length of the store
  and the same identifiers at the same positions.
\<close>

theorem moveTask_keeps_shape:
  "length (moveTask task newStatus store) = length store
   \<and> map task_id (moveTask task newStatus store) = map task_id store"
  by (simp add: moveTask_def)

text \<open>
  C8: the assignment is blind. Whatever string \<open>newStatus\<close> is, in the taxonomy or not,
  a task of the store with the identifier of the dragged task comes out with exactly
  that string as its status; nothing validates, rejects or clamps it.
\<close>

theorem moveTask_blind_assignment:
  "i < length store \<Longrightarrow> task_id (store ! i) = task_id task \<Longrightarrow>
   moveTask task newStatus store ! i = (store ! i)\<lparr>status := newStatus\<rparr>
   \<and> status (moveTask task newStatus store ! i) = newStatus"
  by (simp add: moveTask_nth)

text \<open>C8 with \<open>ARCHIVED\<close>, a string outside the taxonomy.\<close>

theorem moveTask_blind_assignment_witness:
  "''ARCHIVED'' \<notin> set taxonomy
   \<and> 0 < length [sample_task ''a'' ''TODO'', sample_task ''b'' ''BACKLOG'']
   \<and> task_id ([sample_task ''a'' ''TODO'', sample_task ''b'' ''BACKLOG''] ! 0)
       = task_id (sample_task ''a'' ''TODO'')
   \<and> moveTask (sample_task ''a'' ''TODO'') ''ARCHIVED''
        [sample_task ''a'' ''TODO'', sample_task ''b'' ''BACKLOG''] ! 0
       = sample_task ''a'' ''ARCHIVED''
   \<and> status (moveTask (sample_task ''a'' ''TODO'') ''ARCHIVED''
        [sample_task ''a'' ''TODO'', sample_task ''b'' ''BACKLOG''] ! 0) = ''ARCHIVED''"
  using moveTask_blind_assignment [of 0
      "[sample_task ''a'' ''TODO'', sample_task ''b'' ''BACKLOG'']"
      "sample_task ''a'' ''TODO''" "''ARCHIVED''"]
  by (simp add: taxonomy_def)

subsection \<open>Populating the store\<close>

text \<open>
  C9: the board is filled from the fetch of one fixed identifier. \<open>fetchTasks\<close> asks the
  collaborator for \<open>cm59m7yt30000iujtnlr77mne\<close> and for nothing else: its result is the
  same with a collaborator that gives that answer for every identifier, and whatever
  the collaborator answers for the other identifiers (the routed \<open>TaskId\<close> among them),
  the store becomes the \<open>subTasks\<close> of the parent task returned for the fixed one.
\<close>

theorem fetchTasks_fixed_identifier:
  "fetchTasks getTaskById s = fetchTasks (\<lambda>_. getTaskById ''cm59m7yt30000iujtnlr77mne'') s
   \<and> tasks (fetchTasks
        (\<lambda>i. if i = ''cm59m7yt30000iujtnlr77mne'' then Resolved (Some data) else other i) s)
       = subTasks_main data"
  by (simp add: fetchTasks_def Let_def split: fetched.splits option.splits)

text \<open>
  With the page around it: for every routed \<open>TaskId\<close> under which the board stays
  mounted, its state is what \<open>fetchTasks\<close> makes of the answer for the fixed identifier,
  so two routed identifiers that both show a board show the same one.
\<close>

lemma Page_mount_content:
  "content (Page_mount TaskId getTaskById) = Some b \<Longrightarrow>
   b = fetchTasks (\<lambda>_. getTaskById ''cm59m7yt30000iujtnlr77mne'') dashboard_init"
  by (auto simp: Page_mount_def fetchTaskDetails_def fetchTasks_def page_init_def Let_def
      split: fetched.splits option.splits if_splits)

lemma Page_mount_content_independent:
  "content (Page_mount TaskId getTaskById) = Some b \<Longrightarrow>
   content (Page_mount TaskId' getTaskById) = Some b' \<Longrightarrow> b = b'"
  by (auto dest: Page_mount_content)

lemma Page_mount_rejected:
  "getTaskById TaskId = Rejected \<Longrightarrow> content (Page_mount TaskId getTaskById) = None"
  by (simp add: Page_mount_def fetchTaskDetails_def page_init_def)

text \<open>
  C5 does not hold of the code. When the fetched parent task has no \<open>subTasks\<close>
  property, \<open>fetchTasks\<close> stores \<open>undefined\<close> in \<open>tasks\<close>, and the next render fails with
  a \<open>TypeError\<close> in \<open>tasks.filter\<close> instead of showing four empty lanes.
\<close>

theorem fetchTasks_absent_subTasks_render:
  "DashboardContent
     (fetchTasks
        (\<lambda>_. Resolved (Some \<lparr>id_main = ''cm59m7yt30000iujtnlr77mne'', title_main = ''Parent'',
                description_main = [], status_main = ''TODO'', subTasks_main = None\<rparr>))
        dashboard_init)
   = Inl TypeError"
  by (simp add: DashboardContent_def memo_def fetchTasks_def dashboard_init_def)

end
